theory Spec2Isabelle
  imports Main "HOL-Library.Sublist"
begin

section \<open>JavaScript values and strings\<close>

text \<open>
  The permission checker of \<^verbatim>\<open>core/tools/permissions\<close> works on tool names, rule
  patterns and tool-call arguments. A JavaScript string is modelled as a \<^typ>\<open>string\<close>
  whose characters stand for the UTF-16 code units U+0000 to U+00FF. Tool-call arguments
  are \<^verbatim>\<open>Record<string, any>\<close>: an association list from property names to values,
  read with \<open>js_get\<close> (a missing property reads as \<open>undefined\<close>; only own properties are
  modelled). A number is an integer-valued number. Arrays and objects carry the reference
  that \<^verbatim>\<open>===\<close> compares.
\<close>

datatype jsval =
    JUndefined
  | JNull
  | JBool bool
  | JNum int
  | JStr string
  | JArr nat "jsval list"
  | JObj nat "(string \<times> jsval) list"

type_synonym jsrecord = "(string \<times> jsval) list"

definition js_get :: "jsrecord \<Rightarrow> string \<Rightarrow> jsval" where
  "js_get r k = (case map_of r k of None \<Rightarrow> JUndefined | Some v \<Rightarrow> v)"

text \<open>Truthiness, as tested by \<^verbatim>\<open>if (v)\<close> and \<^verbatim>\<open>a && v\<close>.\<close>

fun js_truthy :: "jsval \<Rightarrow> bool" where
  "js_truthy JUndefined = False"
| "js_truthy JNull = False"
| "js_truthy (JBool b) = b"
| "js_truthy (JNum n) = (n \<noteq> 0)"
| "js_truthy (JStr s) = (s \<noteq> [])"
| "js_truthy (JArr r xs) = True"
| "js_truthy (JObj r kvs) = True"

text \<open>Strict equality \<^verbatim>\<open>===\<close>: by value on primitives, by reference on arrays and objects.\<close>

fun js_strict_eq :: "jsval \<Rightarrow> jsval \<Rightarrow> bool" where
  "js_strict_eq JUndefined b = (b = JUndefined)"
| "js_strict_eq JNull b = (b = JNull)"
| "js_strict_eq (JBool x) b = (b = JBool x)"
| "js_strict_eq (JNum x) b = (b = JNum x)"
| "js_strict_eq (JStr x) b = (b = JStr x)"
| "js_strict_eq (JArr r xs) b = (case b of JArr r' ys \<Rightarrow> r = r' | _ \<Rightarrow> False)"
| "js_strict_eq (JObj r xs) b = (case b of JObj r' ys \<Rightarrow> r = r' | _ \<Rightarrow> False)"

text \<open>The nullish coalescing operator \<^verbatim>\<open>a ?? b\<close>.\<close>

fun js_nullish_or :: "jsval \<Rightarrow> jsval \<Rightarrow> jsval" where
  "js_nullish_or JUndefined d = d"
| "js_nullish_or JNull d = d"
| "js_nullish_or v d = v"

text \<open>The conversion \<^verbatim>\<open>String(v)\<close>, which \<^verbatim>\<open>regex.test(v)\<close> applies to its argument too.\<close>

function show_nat :: "nat \<Rightarrow> string" where
  "show_nat n =
     (if n < 10 then [char_of (48 + n)]
      else show_nat (n div 10) @ [char_of (48 + n mod 10)])"
  by pat_completeness auto
termination
  by (relation "measure (\<lambda>n. n)") auto

definition show_int :: "int \<Rightarrow> string" where
  "show_int i = (if i < 0 then CHR ''-'' # show_nat (nat (- i)) else show_nat (nat i))"

fun js_join :: "string \<Rightarrow> string list \<Rightarrow> string" where
  "js_join sep [] = []"
| "js_join sep [x] = x"
| "js_join sep (x # y # ys) = x @ sep @ js_join sep (y # ys)"

fun js_String :: "jsval \<Rightarrow> string" where
  "js_String JUndefined = ''undefined''"
| "js_String JNull = ''null''"
| "js_String (JBool b) = (if b then ''true'' else ''false'')"
| "js_String (JNum n) = show_int n"
| "js_String (JStr s) = s"
| "js_String (JArr r xs) =
     js_join '','' (map (\<lambda>x. if x = JUndefined \<or> x = JNull then [] else js_String x) xs)"
| "js_String (JObj r kvs) = ''[object Object]''"

definition js_typeof_string :: "jsval \<Rightarrow> bool" where
  "js_typeof_string v = (case v of JStr s \<Rightarrow> True | _ \<Rightarrow> False)"

definition js_includes :: "string \<Rightarrow> char \<Rightarrow> bool" where
  "js_includes s c = (c \<in> set s)"

section \<open>The regular expressions of the checker\<close>

text \<open>
  The checker turns a glob into a regular expression in three string rewrites and hands
  the result to \<^verbatim>\<open>new RegExp\<close>:
  \<^verbatim>\<open>pattern.replace(/[.+^${}()|[\]\\]/g, "\\$&")\<close>, then
  \<^verbatim>\<open>.replace(/\*/g, ".*")\<close>, then \<^verbatim>\<open>.replace(/\?/g, ".")\<close>.
  Each rewrite replaces single characters, so each is a \<open>concat\<close> over the characters.
\<close>

definition backslash :: char where
  "backslash = CHR 0x5C"

definition regexMetachars :: "char list" where
  "regexMetachars = ''.+^${}()|[]'' @ [backslash]"

definition escapeMetachars :: "string \<Rightarrow> string" where
  "escapeMetachars s = concat (map (\<lambda>c. if c \<in> set regexMetachars then [backslash, c] else [c]) s)"

definition replaceStars :: "string \<Rightarrow> string" where
  "replaceStars s = concat (map (\<lambda>c. if c = CHR ''*'' then ''.*'' else [c]) s)"

definition replaceQuestions :: "string \<Rightarrow> string" where
  "replaceQuestions s = concat (map (\<lambda>c. if c = CHR ''?'' then ''.'' else [c]) s)"

text \<open>
  The regular expressions that can come out of the rewrites are sequences of three kinds of
  atoms: a literal character (plain, or a metacharacter after a backslash), the dot, and the
  dot under a star. \<open>parseRegExp\<close> reads the source text between \<^verbatim>\<open>^\<close> and \<^verbatim>\<open>$\<close> from left
  to right; text outside this fragment (a syntax error, or an operator the checker never
  produces) is \<open>None\<close>.
\<close>

datatype rx_atom = RChar char | RDot | RDotStar

fun parseRegExp :: "string \<Rightarrow> rx_atom list option" where
  "parseRegExp [] = Some []"
| "parseRegExp (c # cs) =
     (if c = backslash then
        (case cs of
           [] \<Rightarrow> None
         | d # ds \<Rightarrow>
             if d \<in> set regexMetachars then map_option ((#) (RChar d)) (parseRegExp ds)
             else None)
      else if c = CHR ''.'' then
        (case cs of
           [] \<Rightarrow> Some [RDot]
         | d # ds \<Rightarrow>
             if d = CHR ''*'' then map_option ((#) RDotStar) (parseRegExp ds)
             else map_option ((#) RDot) (parseRegExp (d # ds)))
      else if c \<in> set regexMetachars \<or> c = CHR ''*'' \<or> c = CHR ''?'' then None
      else map_option ((#) (RChar c)) (parseRegExp cs))"

text \<open>
  Without the \<^verbatim>\<open>s\<close> flag the dot matches any code unit except a line terminator: line feed
  and carriage return (U+2028 and U+2029 lie outside the modelled code units).
\<close>

definition isLineTerminator :: "char \<Rightarrow> bool" where
  "isLineTerminator c = (c = CHR 0x0A \<or> c = CHR 0x0D)"

text \<open>\<^verbatim>\<open>regex.test(s)\<close> for the anchored expression \<^verbatim>\<open>^...$\<close> (no flags): the whole of \<open>s\<close>.\<close>

fun regexTest :: "rx_atom list \<Rightarrow> string \<Rightarrow> bool" where
  "regexTest [] s = (s = [])"
| "regexTest (RChar c # r) [] = False"
| "regexTest (RChar c # r) (x # xs) = (x = c \<and> regexTest r xs)"
| "regexTest (RDot # r) [] = False"
| "regexTest (RDot # r) (x # xs) = (\<not> isLineTerminator x \<and> regexTest r xs)"
| "regexTest (RDotStar # r) [] = regexTest r []"
| "regexTest (RDotStar # r) (x # xs) =
     (regexTest r (x # xs) \<or> (\<not> isLineTerminator x \<and> regexTest (RDotStar # r) xs))"

text \<open>
  Lines 39 to 43 (and 55 to 59, 89 to 94) of \<^verbatim>\<open>permissionChecker.ts\<close>: escape, rewrite,
  compile, test. The rewrites always produce text that \<open>parseRegExp\<close> accepts
  (lemma \<open>parseRegExp_glob\<close> below), so the \<open>None\<close> branch is never taken.
\<close>

definition globRegexTest :: "string \<Rightarrow> string \<Rightarrow> bool" where
  "globRegexTest pattern s =
     (let escaped = escapeMetachars pattern;
          regexPattern = replaceQuestions (replaceStars escaped)
      in case parseRegExp regexPattern of
           Some regex \<Rightarrow> regexTest regex s
         | None \<Rightarrow> False)"

text \<open>
  \<^verbatim>\<open>pattern.match(/^(?:run_terminal_command|runTerminalCommand)\((.+)\)$/)\<close>: one of the
  two names, an opening parenthesis, one or more characters that are not line terminators,
  and a closing parenthesis that is the last character. The result is the capture group.
\<close>

fun stripPrefix :: "string \<Rightarrow> string \<Rightarrow> string option" where
  "stripPrefix [] s = Some s"
| "stripPrefix (p # ps) [] = None"
| "stripPrefix (p # ps) (c # cs) = (if p = c then stripPrefix ps cs else None)"

definition commandMatch :: "string \<Rightarrow> string option" where
  "commandMatch pattern =
     (case (case stripPrefix ''run_terminal_command'' pattern of
              Some rest \<Rightarrow> Some rest
            | None \<Rightarrow> stripPrefix ''runTerminalCommand'' pattern) of
        None \<Rightarrow> None
      | Some rest \<Rightarrow>
          (case rest of
             [] \<Rightarrow> None
           | c # body \<Rightarrow>
               if c = CHR ''('' \<and> body \<noteq> [] \<and> last body = CHR '')''
                  \<and> butlast body \<noteq> [] \<and> \<not> list_ex isLineTerminator (butlast body)
               then Some (butlast body)
               else None))"

section \<open>permissionChecker.ts\<close>

text \<open>\<^verbatim>\<open>matchesToolPattern(toolName, pattern, toolArguments?)\<close>, lines 15 to 63.\<close>

definition matchesToolPattern :: "string \<Rightarrow> string \<Rightarrow> jsrecord option \<Rightarrow> bool" where
  "matchesToolPattern toolName pattern toolArguments =
     (if pattern = ''*'' then True
      else if pattern = toolName then True
      else
        (case commandMatch pattern of
           Some commandPattern \<Rightarrow>
             (let isTerminalTool =
                    (toolName = ''runTerminalCommand'' \<or> toolName = ''run_terminal_command'');
                  command = (case toolArguments of
                               None \<Rightarrow> JUndefined
                             | Some a \<Rightarrow> js_get a ''command'')
              in if isTerminalTool \<and> js_truthy command then
                   (if js_includes commandPattern (CHR ''*'') \<or> js_includes commandPattern (CHR ''?'')
                    then globRegexTest commandPattern (js_String command)
                    else js_strict_eq command (JStr commandPattern))
                 else False)
         | None \<Rightarrow>
             if js_includes pattern (CHR ''*'') \<or> js_includes pattern (CHR ''?'')
             then globRegexTest pattern toolName
             else False))"

text \<open>\<^verbatim>\<open>matchesArguments(args, patterns?)\<close>, lines 69 to 106: the loop over
  \<^verbatim>\<open>Object.entries(patterns)\<close>, with its early returns.\<close>

fun matchesEntries :: "jsrecord \<Rightarrow> (string \<times> jsval) list \<Rightarrow> bool" where
  "matchesEntries args [] = True"
| "matchesEntries args ((key, pattern) # rest) =
     (let argValue = js_get args key
      in if js_strict_eq pattern (JStr ''*'') then matchesEntries args rest
         else if js_typeof_string pattern
                 \<and> (js_includes (js_String pattern) (CHR ''*'')
                      \<or> js_includes (js_String pattern) (CHR ''?''))
         then
           (let stringValue = js_String (js_nullish_or argValue (JStr []))
            in if \<not> globRegexTest (js_String pattern) stringValue then False
               else matchesEntries args rest)
         else
           (if \<not> js_strict_eq argValue pattern then False
            else matchesEntries args rest))"

definition matchesArguments :: "jsrecord \<Rightarrow> jsrecord option \<Rightarrow> bool" where
  "matchesArguments args patterns =
     (case patterns of None \<Rightarrow> True | Some ps \<Rightarrow> matchesEntries args ps)"

text \<open>
  \<^verbatim>\<open>types.ts\<close>: the three permissions, a rule, the rule list and the result of a check.
\<close>

datatype PermissionPolicy = Allow | Ask | Exclude

record ToolPermissionPolicy =
  tool :: string
  permission :: PermissionPolicy
  argumentMatches :: "jsrecord option"

record ToolPermissions =
  policies :: "ToolPermissionPolicy list"

record PermissionCheckResult =
  permission :: PermissionPolicy
  matchedPolicy :: "ToolPermissionPolicy option"

text \<open>
  Modelled from the spec: the type \<^verbatim>\<open>ToolPolicy\<close> is declared in the package
  \<^verbatim>\<open>@continuedev/terminal-security\<close>, outside these sources. It is the risk vocabulary of
  the dynamic evaluation; its three values are the ones that the two conversion functions
  of \<^verbatim>\<open>permissionChecker.ts\<close> switch on (their \<^verbatim>\<open>default\<close> branches are excluded by
  the type).
\<close>

datatype ToolPolicy = AllowedWithoutPermission | AllowedWithPermission | Disabled

text \<open>
  Modelled from the spec: the type \<^verbatim>\<open>Tool\<close> is declared in \<^verbatim>\<open>core/index\<close>, outside these
  sources. A tool is identified by a name (\<^verbatim>\<open>tool.function.name\<close>) and has, optionally, a
  dynamic-evaluation capability
  \<^verbatim>\<open>evaluateToolCallPolicy(basePolicy, parsedArgs, processedArgs)\<close>, a function of the base
  decision, the raw arguments and the normalized arguments.
\<close>

record Tool =
  function_name :: string
  evaluateToolCallPolicy ::
    "(ToolPolicy \<Rightarrow> jsrecord \<Rightarrow> jsrecord option \<Rightarrow> ToolPolicy) option"

fun permissionPolicyToToolPolicy :: "PermissionPolicy \<Rightarrow> ToolPolicy" where
  "permissionPolicyToToolPolicy Allow = AllowedWithoutPermission"
| "permissionPolicyToToolPolicy Ask = AllowedWithPermission"
| "permissionPolicyToToolPolicy Exclude = Disabled"

fun toolPolicyToPermissionPolicy :: "ToolPolicy \<Rightarrow> PermissionPolicy" where
  "toolPolicyToPermissionPolicy AllowedWithoutPermission = Allow"
| "toolPolicyToPermissionPolicy AllowedWithPermission = Ask"
| "toolPolicyToPermissionPolicy Disabled = Exclude"

text \<open>
  \<^verbatim>\<open>checkToolPermission\<close>, lines 148 to 213. The \<^verbatim>\<open>for\<close> loop with its \<^verbatim>\<open>break\<close>
  returns the pair \<open>(basePermission, matchedPolicy)\<close>.
\<close>

fun scanPolicies ::
  "string \<Rightarrow> jsrecord \<Rightarrow> ToolPermissionPolicy list
     \<Rightarrow> PermissionPolicy \<times> ToolPermissionPolicy option" where
  "scanPolicies toolName toolArguments [] = (Allow, None)"
| "scanPolicies toolName toolArguments (policy # rest) =
     (if matchesToolPattern toolName (tool policy) (Some toolArguments)
         \<and> matchesArguments toolArguments (argumentMatches policy)
      then (ToolPermissionPolicy.permission policy, Some policy)
      else scanPolicies toolName toolArguments rest)"

definition checkToolPermission ::
  "string \<Rightarrow> jsrecord \<Rightarrow> ToolPermissions \<Rightarrow> jsrecord option \<Rightarrow> Tool option
     \<Rightarrow> PermissionCheckResult" where
  "checkToolPermission toolName toolArguments permissions processedArgs tool_opt =
     (let (basePermission, matched) = scanPolicies toolName toolArguments (policies permissions)
      in case (case tool_opt of None \<Rightarrow> None | Some t \<Rightarrow> evaluateToolCallPolicy t) of
           Some evaluate \<Rightarrow>
             (let basePolicy = permissionPolicyToToolPolicy basePermission;
                  evaluatedPolicy = evaluate basePolicy toolArguments processedArgs;
                  evaluatedPermission = toolPolicyToPermissionPolicy evaluatedPolicy
              in if basePermission = Exclude \<or> evaluatedPermission = Exclude
                 then \<lparr>permission = Exclude, matchedPolicy = matched\<rparr>
                 else if basePermission = Ask \<or> evaluatedPermission = Ask
                 then \<lparr>permission = Ask, matchedPolicy = matched\<rparr>
                 else \<lparr>permission = Allow, matchedPolicy = matched\<rparr>)
         | None \<Rightarrow> \<lparr>permission = basePermission, matchedPolicy = matched\<rparr>)"

text \<open>\<^verbatim>\<open>filterExcludedTools\<close>, lines 219 to 233: \<^verbatim>\<open>tools.filter\<close> with empty arguments.\<close>

definition filterExcludedTools :: "Tool list \<Rightarrow> ToolPermissions \<Rightarrow> Tool list" where
  "filterExcludedTools tools permissions =
     filter (\<lambda>t. permission (checkToolPermission (function_name t) [] permissions None (Some t))
                  \<noteq> Exclude) tools"

section \<open>permissionsYamlLoader.ts\<close>

text \<open>
  \<^verbatim>\<open>pattern.match(/^([^(]+)(?:\(([^)]*)\))?$/)\<close>. The first group takes the longest run
  of characters other than an opening parenthesis, and needs at least one (a shorter run
  would leave a character that neither the optional group nor \<^verbatim>\<open>$\<close> accepts). At the end
  of the text the optional group is absent. Otherwise the next character is the opening
  parenthesis; the second group takes the longest run of characters other than a closing
  parenthesis, and what is left must be exactly one closing parenthesis.
\<close>

definition toolPatternMatch :: "string \<Rightarrow> (string \<times> string option) option" where
  "toolPatternMatch pattern =
     (let toolName = takeWhile (\<lambda>c. c \<noteq> CHR ''('') pattern;
          rest = dropWhile (\<lambda>c. c \<noteq> CHR ''('') pattern
      in if toolName = [] then None
         else if rest = [] then Some (toolName, None)
         else
           (let args = takeWhile (\<lambda>c. c \<noteq> CHR '')'') (tl rest);
                closing = dropWhile (\<lambda>c. c \<noteq> CHR '')'') (tl rest)
            in if closing = '')'' then Some (toolName, Some args) else None))"

text \<open>
  \<^verbatim>\<open>String.prototype.trim\<close> removes white space and line terminators at both ends; among
  the modelled code units these are U+0009 to U+000D, the space and U+00A0.
\<close>

definition isWhiteSpace :: "char \<Rightarrow> bool" where
  "isWhiteSpace c = (c \<in> set [CHR 0x09, CHR 0x0A, CHR 0x0B, CHR 0x0C, CHR 0x0D, CHR 0x20, CHR 0xA0])"

definition js_trim :: "string \<Rightarrow> string" where
  "js_trim s = rev (dropWhile isWhiteSpace (rev (dropWhile isWhiteSpace s)))"

definition toolArgMappings :: "(string \<times> string) list" where
  "toolArgMappings =
     [(''run_terminal_command'', ''command''),
      (''runTerminalCommand'', ''command''),
      (''read_file'', ''file_path''),
      (''read_file_range'', ''file_path''),
      (''create_new_file'', ''file_path''),
      (''edit_existing_file'', ''file_path''),
      (''grep_search'', ''query''),
      (''file_glob_search'', ''pattern''),
      (''search_web'', ''query'')]"

datatype error = InvalidToolPattern string

text \<open>\<^verbatim>\<open>parseToolPattern(pattern, permission)\<close>, lines 72 to 113; \<open>Inl\<close> is the thrown error.\<close>

definition parseToolPattern :: "string \<Rightarrow> PermissionPolicy \<Rightarrow> error + ToolPermissionPolicy" where
  "parseToolPattern pattern perm =
     (case toolPatternMatch pattern of
        None \<Rightarrow> Inl (InvalidToolPattern pattern)
      | Some (toolName, args) \<Rightarrow>
          (let normalizedName = js_trim toolName;
               policy = \<lparr>tool = normalizedName, ToolPermissionPolicy.permission = perm,
                         argumentMatches = None\<rparr>
           in case args of
                None \<Rightarrow> Inr policy
              | Some a \<Rightarrow>
                  if a = [] then Inr policy
                  else
                    (let trimmedArgs = js_trim a
                     in if trimmedArgs = [] then Inr policy
                        else
                          (let argKey = (case map_of toolArgMappings normalizedName of
                                           Some k \<Rightarrow> k
                                         | None \<Rightarrow> ''pattern'')
                           in Inr (policy\<lparr>argumentMatches :=
                                             Some [(argKey, JStr trimmedArgs)]\<rparr>)))))"

record PermissionsYamlConfig =
  allow :: "string list option"
  ask :: "string list option"
  exclude :: "string list option"

text \<open>
  \<^verbatim>\<open>yamlConfigToPolicies(config)\<close>, lines 119 to 144. Each \<^verbatim>\<open>for\<close> loop pushes onto
  \<open>policies\<close>; an error thrown by \<open>parseToolPattern\<close> ends the whole call.
\<close>

fun pushPatterns ::
  "PermissionPolicy \<Rightarrow> string list \<Rightarrow> ToolPermissionPolicy list
     \<Rightarrow> error + ToolPermissionPolicy list" where
  "pushPatterns perm [] acc = Inr acc"
| "pushPatterns perm (pattern # rest) acc =
     (case parseToolPattern pattern perm of
        Inl e \<Rightarrow> Inl e
      | Inr policy \<Rightarrow> pushPatterns perm rest (acc @ [policy]))"

definition pushCategory ::
  "PermissionPolicy \<Rightarrow> string list option \<Rightarrow> ToolPermissionPolicy list
     \<Rightarrow> error + ToolPermissionPolicy list" where
  "pushCategory perm patterns acc =
     (case patterns of None \<Rightarrow> Inr acc | Some ps \<Rightarrow> pushPatterns perm ps acc)"

definition yamlConfigToPolicies :: "PermissionsYamlConfig \<Rightarrow> error + ToolPermissionPolicy list" where
  "yamlConfigToPolicies config =
     (case pushCategory Exclude (exclude config) [] of
        Inl e \<Rightarrow> Inl e
      | Inr p1 \<Rightarrow>
          (case pushCategory Ask (ask config) p1 of
             Inl e \<Rightarrow> Inl e
           | Inr p2 \<Rightarrow> pushCategory Allow (allow config) p2))"

section \<open>ToolPermissionsService.ts\<close>

text \<open>
  The fields of the service that \<open>checkPermission\<close> and \<open>isEnabled\<close> read. (The file
  watcher handle plays no part in either.)
\<close>

record ToolPermissionsService =
  permissions :: "ToolPermissions option"
  enabled :: bool

definition checkPermission ::
  "ToolPermissionsService \<Rightarrow> Tool \<Rightarrow> jsrecord \<Rightarrow> jsrecord option \<Rightarrow> PermissionCheckResult" where
  "checkPermission this t toolArguments processedArgs =
     (if \<not> enabled this then \<lparr>permission = Allow, matchedPolicy = None\<rparr>
      else
        (case permissions this of
           None \<Rightarrow> \<lparr>permission = Allow, matchedPolicy = None\<rparr>
         | Some ps \<Rightarrow>
             checkToolPermission (function_name t) toolArguments ps processedArgs (Some t)))"

definition isEnabled :: "ToolPermissionsService \<Rightarrow> bool" where
  "isEnabled this = (enabled this \<and> permissions this \<noteq> None)"


section \<open>Notions of the specification\<close>

text \<open>
  The glob of the specification: every character of the pattern stands for itself, except
  \<^verbatim>\<open>*\<close>, which stands for zero or more characters, and \<^verbatim>\<open>?\<close>, which stands for exactly
  one character; the whole string has to match.
\<close>

fun globMatches :: "string \<Rightarrow> string \<Rightarrow> bool" where
  "globMatches [] s = (s = [])"
| "globMatches (p # ps) [] = (p = CHR ''*'' \<and> globMatches ps [])"
| "globMatches (p # ps) (x # xs) =
     (if p = CHR ''*'' then globMatches ps (x # xs) \<or> globMatches (p # ps) xs
      else if p = CHR ''?'' then globMatches ps xs
      else p = x \<and> globMatches ps xs)"

text \<open>
  What the three rewrites of the checker make of one character of a glob, as text
  (\<open>globPiece\<close>) and as the atom that the regular expression compiler reads from that text
  (\<open>globAtom\<close>).
\<close>

definition globPiece :: "char \<Rightarrow> string" where
  "globPiece c =
     (if c \<in> set regexMetachars then [backslash, c]
      else if c = CHR ''*'' then ''.*''
      else if c = CHR ''?'' then ''.''
      else [c])"

definition globAtom :: "char \<Rightarrow> rx_atom" where
  "globAtom c = (if c = CHR ''*'' then RDotStar else if c = CHR ''?'' then RDot else RChar c)"

text \<open>
  The special shape of a rule pattern: the name of the terminal tool, in either spelling,
  followed by an argument pattern in parentheses.
\<close>

definition terminalShape :: "string \<Rightarrow> string \<Rightarrow> bool" where
  "terminalShape pattern argPattern \<longleftrightarrow>
     pattern = ''run_terminal_command'' @ ''('' @ argPattern @ '')''
     \<or> pattern = ''runTerminalCommand'' @ ''('' @ argPattern @ '')''"

text \<open>
  The reference definition of argument matching, for a glob matcher \<open>glob\<close>. For one declared
  key, with \<open>raw\<close> the raw argument value (\<open>undefined\<close> when the argument is missing): the
  pattern \<^verbatim>\<open>"*"\<close> matches; a string pattern with \<^verbatim>\<open>*\<close> or \<^verbatim>\<open>?\<close> is matched as a glob
  against the string form of the value, a missing value (\<open>undefined\<close> or \<open>null\<close>) counting as the
  empty string; any other pattern has to be exactly equal to the raw value. All declared
  keys have to match.
\<close>

definition argumentMatchesRef :: "(string \<Rightarrow> string \<Rightarrow> bool) \<Rightarrow> jsval \<Rightarrow> jsval \<Rightarrow> bool" where
  "argumentMatchesRef glob raw pattern =
     (if pattern = JStr ''*'' then True
      else
        (case pattern of
           JStr sp \<Rightarrow>
             if CHR ''*'' \<in> set sp \<or> CHR ''?'' \<in> set sp
             then glob sp (if raw = JUndefined \<or> raw = JNull then [] else js_String raw)
             else js_strict_eq raw pattern
         | _ \<Rightarrow> js_strict_eq raw pattern))"

definition matchesArgumentsRef ::
  "(string \<Rightarrow> string \<Rightarrow> bool) \<Rightarrow> jsrecord \<Rightarrow> jsrecord option \<Rightarrow> bool" where
  "matchesArgumentsRef glob args patterns =
     (case patterns of
        None \<Rightarrow> True
      | Some ps \<Rightarrow> list_all (\<lambda>(key, pattern). argumentMatchesRef glob (js_get args key) pattern) ps)"

text \<open>
  Balanced parentheses: scanning from the left, no closing parenthesis comes without an
  open one before it (\<open>None\<close>), and none is left open at the end.
\<close>

fun parenDepth :: "nat \<Rightarrow> string \<Rightarrow> nat option" where
  "parenDepth d [] = Some d"
| "parenDepth d (c # cs) =
     (if c = CHR ''('' then parenDepth (Suc d) cs
      else if c = CHR '')'' then (case d of 0 \<Rightarrow> None | Suc k \<Rightarrow> parenDepth k cs)
      else parenDepth d cs)"

definition balancedParens :: "string \<Rightarrow> bool" where
  "balancedParens s = (parenDepth 0 s = Some 0)"

text \<open>
  A rule matches a call when its tool pattern matches the name and arguments and its
  argument patterns match too. The static base permission is that of the first matching
  rule, or \<open>Allow\<close> when no rule matches. Restrictiveness orders the permissions:
  \<open>Exclude\<close> above \<open>Ask\<close> above \<open>Allow\<close>.
\<close>

definition ruleMatches :: "string \<Rightarrow> jsrecord \<Rightarrow> ToolPermissionPolicy \<Rightarrow> bool" where
  "ruleMatches toolName toolArguments policy =
     (matchesToolPattern toolName (tool policy) (Some toolArguments)
      \<and> matchesArguments toolArguments (argumentMatches policy))"

definition staticBase :: "string \<Rightarrow> jsrecord \<Rightarrow> ToolPermissionPolicy list \<Rightarrow> PermissionPolicy" where
  "staticBase toolName toolArguments ps =
     (case find (ruleMatches toolName toolArguments) ps of
        None \<Rightarrow> Allow
      | Some policy \<Rightarrow> ToolPermissionPolicy.permission policy)"

fun restrictiveness :: "PermissionPolicy \<Rightarrow> nat" where
  "restrictiveness Allow = 0"
| "restrictiveness Ask = 1"
| "restrictiveness Exclude = 2"

definition moreRestrictive :: "PermissionPolicy \<Rightarrow> PermissionPolicy \<Rightarrow> PermissionPolicy" where
  "moreRestrictive a b = (if restrictiveness a \<le> restrictiveness b then b else a)"

text \<open>A tool is excluded in the bulk check when its evaluation with empty arguments says so.\<close>

definition excludedWithoutArguments :: "ToolPermissions \<Rightarrow> Tool \<Rightarrow> bool" where
  "excludedWithoutArguments perms t =
     (PermissionCheckResult.permission
        (checkToolPermission (function_name t) [] perms None (Some t)) = Exclude)"

section \<open>The compiled glob\<close>

text \<open>
  The text that the three rewrites produce always compiles, to one atom per character of
  the glob.
\<close>

lemma metachars_simps:
  "CHR ''*'' \<notin> set regexMetachars" "CHR ''?'' \<notin> set regexMetachars"
  "CHR ''.'' \<in> set regexMetachars" "backslash \<in> set regexMetachars"
  by (simp_all add: regexMetachars_def backslash_def)

lemma rewrite_Cons:
  "replaceQuestions (replaceStars (escapeMetachars (c # p))) =
     globPiece c @ replaceQuestions (replaceStars (escapeMetachars p))"
  by (simp add: replaceQuestions_def replaceStars_def escapeMetachars_def globPiece_def
      regexMetachars_def backslash_def)

lemma rewrite_not_star:
  assumes "replaceQuestions (replaceStars (escapeMetachars p)) = d # ds"
  shows "d \<noteq> CHR ''*''"
proof (cases p)
  case Nil
  with assms show ?thesis
    by (simp add: replaceQuestions_def replaceStars_def escapeMetachars_def)
next
  case (Cons c cs)
  with assms show ?thesis
    by (auto simp: rewrite_Cons globPiece_def backslash_def split: if_splits)
qed

lemma parseRegExp_piece:
  assumes "\<And>d ds. s = d # ds \<Longrightarrow> d \<noteq> CHR ''*''"
  shows "parseRegExp (globPiece c @ s) = map_option ((#) (globAtom c)) (parseRegExp s)"
proof (cases "c \<in> set regexMetachars")
  case True
  then have "c \<noteq> CHR ''*''" "c \<noteq> CHR ''?''"
    using metachars_simps by auto
  with True show ?thesis
    by (simp add: globPiece_def globAtom_def)
next
  case False
  note nometa = this
  show ?thesis
  proof (cases "c = CHR ''*''")
    case True
    then show ?thesis
      by (simp add: globPiece_def globAtom_def metachars_simps backslash_def)
  next
    case False
    note nostar = this
    show ?thesis
    proof (cases "c = CHR ''?''")
      case True
      then show ?thesis using assms
        by (cases s) (simp_all add: globPiece_def globAtom_def metachars_simps backslash_def)
    next
      case False
      with nometa nostar have "c \<noteq> backslash" "c \<noteq> CHR ''.''"
        using metachars_simps by auto
      with False nometa nostar show ?thesis
        by (simp add: globPiece_def globAtom_def)
    qed
  qed
qed

lemma parseRegExp_glob:
  "parseRegExp (replaceQuestions (replaceStars (escapeMetachars p))) = Some (map globAtom p)"
proof (induction p)
  case Nil
  then show ?case
    by (simp add: replaceQuestions_def replaceStars_def escapeMetachars_def)
next
  case (Cons c p)
  have "parseRegExp (globPiece c @ replaceQuestions (replaceStars (escapeMetachars p)))
          = map_option ((#) (globAtom c))
              (parseRegExp (replaceQuestions (replaceStars (escapeMetachars p))))"
    by (rule parseRegExp_piece) (rule rewrite_not_star)
  with Cons show ?case
    by (simp add: rewrite_Cons)
qed

lemma globRegexTest_atoms: "globRegexTest p s = regexTest (map globAtom p) s"
  by (simp add: globRegexTest_def parseRegExp_glob)

text \<open>
  On a string without line terminators the compiled expression is the glob of the
  specification. On any string, a match of the compiled expression is a match of the glob;
  the converse fails where a wildcard would have to cover a line terminator, which the dot
  does not match.
\<close>

lemma regexTest_glob:
  "\<not> list_ex isLineTerminator s \<Longrightarrow> regexTest (map globAtom p) s = globMatches p s"
  by (induction p s rule: globMatches.induct) (auto simp: globAtom_def)

lemma globRegexTest_glob:
  "\<not> list_ex isLineTerminator s \<Longrightarrow> globRegexTest p s = globMatches p s"
  by (simp add: globRegexTest_atoms regexTest_glob)

lemma regexTest_imp_glob:
  "regexTest (map globAtom p) s \<Longrightarrow> globMatches p s"
  by (induction p s rule: globMatches.induct) (auto simp: globAtom_def split: if_splits)

section \<open>The terminal command shape\<close>

lemma stripPrefix_iff: "stripPrefix pre s = Some r \<longleftrightarrow> s = pre @ r"
  by (induction pre s rule: stripPrefix.induct) auto

lemma stripPrefix_None_iff: "stripPrefix pre s = None \<longleftrightarrow> (\<forall>r. s \<noteq> pre @ r)"
  using stripPrefix_iff [of pre s] by (cases "stripPrefix pre s") auto

lemma commandMatch_tail:
  "(case rest of
      [] \<Rightarrow> None
    | c # body \<Rightarrow>
        if c = CHR ''('' \<and> body \<noteq> [] \<and> last body = CHR '')''
           \<and> butlast body \<noteq> [] \<and> \<not> list_ex isLineTerminator (butlast body)
        then Some (butlast body)
        else None) = Some p
   \<longleftrightarrow> rest = ''('' @ p @ '')'' \<and> p \<noteq> [] \<and> \<not> list_ex isLineTerminator p"
proof (cases rest)
  case Nil
  then show ?thesis by simp
next
  case (Cons c body)
  have "body \<noteq> [] \<and> last body = CHR '')'' \<and> butlast body = p \<longleftrightarrow> body = p @ '')''"
    using snoc_eq_iff_butlast [of p "CHR '')''" body] by auto
  with Cons show ?thesis by auto
qed

lemma commandMatch_Some_iff:
  "commandMatch pattern = Some p \<longleftrightarrow>
     terminalShape pattern p \<and> p \<noteq> [] \<and> \<not> list_ex isLineTerminator p"
proof (cases "stripPrefix ''run_terminal_command'' pattern")
  case (Some rest)
  then have pat: "pattern = ''run_terminal_command'' @ rest"
    by (simp only: stripPrefix_iff)
  have "commandMatch pattern = Some p
          \<longleftrightarrow> rest = ''('' @ p @ '')'' \<and> p \<noteq> [] \<and> \<not> list_ex isLineTerminator p"
    unfolding commandMatch_def Some option.case by (rule commandMatch_tail)
  moreover have "terminalShape pattern p \<longleftrightarrow> rest = ''('' @ p @ '')''"
    unfolding terminalShape_def pat by simp
  ultimately show ?thesis by blast
next
  case None
  note no1 = this
  then have not1: "\<And>r. pattern \<noteq> ''run_terminal_command'' @ r"
    by (simp only: stripPrefix_None_iff) blast
  show ?thesis
  proof (cases "stripPrefix ''runTerminalCommand'' pattern")
    case (Some rest)
    then have pat: "pattern = ''runTerminalCommand'' @ rest"
      by (simp only: stripPrefix_iff)
    have "commandMatch pattern = Some p
            \<longleftrightarrow> rest = ''('' @ p @ '')'' \<and> p \<noteq> [] \<and> \<not> list_ex isLineTerminator p"
      unfolding commandMatch_def no1 Some option.case by (rule commandMatch_tail)
    moreover have "terminalShape pattern p \<longleftrightarrow> rest = ''('' @ p @ '')''"
      unfolding terminalShape_def pat by simp
    ultimately show ?thesis by blast
  next
    case None
    then have not2: "\<And>r. pattern \<noteq> ''runTerminalCommand'' @ r"
      by (simp only: stripPrefix_None_iff) blast
    have "commandMatch pattern = None"
      unfolding commandMatch_def no1 None option.case ..
    moreover have "\<not> terminalShape pattern p"
      unfolding terminalShape_def using not1 not2 by blast
    ultimately show ?thesis by simp
  qed
qed

lemma terminalShape_inject: "terminalShape pattern p \<Longrightarrow> terminalShape pattern q \<Longrightarrow> p = q"
  by (auto simp: terminalShape_def)

lemma terminalShape_empty_no_wildcard:
  "terminalShape pattern [] \<Longrightarrow> \<not> js_includes pattern (CHR ''*'') \<and> \<not> js_includes pattern (CHR ''?'')"
  by (auto simp: terminalShape_def js_includes_def)

lemma terminalShape_not_star: "terminalShape pattern p \<Longrightarrow> pattern \<noteq> ''*''"
  by (auto simp: terminalShape_def)

lemma matchesToolPattern_generic:
  assumes "pattern \<noteq> ''*''" and "pattern \<noteq> toolName" and "commandMatch pattern = None"
  shows "matchesToolPattern toolName pattern toolArguments \<longleftrightarrow>
           (CHR ''*'' \<in> set pattern \<or> CHR ''?'' \<in> set pattern) \<and> globRegexTest pattern toolName"
  using assms by (simp add: matchesToolPattern_def js_includes_def)

lemma matchesToolPattern_glob:
  assumes "pattern \<noteq> ''*''" and "pattern \<noteq> toolName" and "commandMatch pattern = None"
    and "\<not> list_ex isLineTerminator toolName"
  shows "matchesToolPattern toolName pattern toolArguments \<longleftrightarrow>
           (CHR ''*'' \<in> set pattern \<or> CHR ''?'' \<in> set pattern) \<and> globMatches pattern toolName"
  using assms by (simp add: matchesToolPattern_generic globRegexTest_glob)

lemma matchesToolPattern_examples:
  "matchesToolPattern ''mcp__server1'' ''mcp__*'' None"
  "matchesToolPattern ''read_file'' ''read_*'' None"
  "\<not> matchesToolPattern ''write_file'' ''read_*'' None"
  by (simp_all add: matchesToolPattern_def commandMatch_def js_includes_def globRegexTest_atoms
      globAtom_def isLineTerminator_def)

lemma globRegexTest_terminal_names:
  "\<not> globRegexTest (''run_terminal_command('' @ rest) ''run_terminal_command''"
  "\<not> globRegexTest (''run_terminal_command('' @ rest) ''runTerminalCommand''"
  by (simp_all add: globRegexTest_atoms globAtom_def)

text \<open>
  Claim C1, as stated, fails: the comparison \<^verbatim>\<open>pattern === toolName\<close> comes first, so a
  tool whose name is itself a string of the terminal shape matches the pattern equal to its
  name.
\<close>

theorem matchesToolPattern_own_name_counterexample:
  "''run_terminal_command(ls)'' \<noteq> ''run_terminal_command''
   \<and> ''run_terminal_command(ls)'' \<noteq> ''runTerminalCommand''
   \<and> terminalShape ''run_terminal_command(ls)'' ''ls''
   \<and> matchesToolPattern ''run_terminal_command(ls)'' ''run_terminal_command(ls)''
        (Some [(''command'', JStr ''ls'')])"
  by (simp add: terminalShape_def matchesToolPattern_def)

text \<open>
  Claim C1, amended: for every tool name that is neither \<^verbatim>\<open>run_terminal_command\<close> nor
  \<^verbatim>\<open>runTerminalCommand\<close> and that differs from the pattern string, and for every argument
  map (or none), \<open>matchesToolPattern\<close> returns false when the pattern is of the shape
  terminal tool name, opening parenthesis, argument pattern, closing parenthesis, with an
  argument pattern free of line terminators.
\<close>

theorem matchesToolPattern_terminal_shape_other_tool:
  assumes "toolName \<noteq> ''run_terminal_command''" and "toolName \<noteq> ''runTerminalCommand''"
    and "toolName \<noteq> pattern"
    and "terminalShape pattern argPattern" and "\<not> list_ex isLineTerminator argPattern"
  shows "\<not> matchesToolPattern toolName pattern toolArguments"
proof (cases "argPattern = []")
  case True
  with assms have "commandMatch pattern = None"
    using commandMatch_Some_iff terminalShape_inject by (cases "commandMatch pattern") auto
  with assms True show ?thesis
    using terminalShape_empty_no_wildcard [of pattern] terminalShape_not_star [of pattern]
    by (auto simp: matchesToolPattern_def)
next
  case False
  with assms have "commandMatch pattern = Some argPattern"
    by (simp add: commandMatch_Some_iff)
  with assms show ?thesis
    using terminalShape_not_star [of pattern argPattern]
    by (simp add: matchesToolPattern_def)
qed

theorem matchesToolPattern_terminal_shape_other_tool_witness:
  "terminalShape ''run_terminal_command(ls*)'' ''ls*''
   \<and> \<not> matchesToolPattern ''read_file'' ''run_terminal_command(ls*)''
         (Some [(''command'', JStr ''ls'')])"
proof -
  have shape: "terminalShape ''run_terminal_command(ls*)'' ''ls*''"
    by (simp add: terminalShape_def)
  have lt: "\<not> list_ex isLineTerminator ''ls*''"
    by (simp add: isLineTerminator_def)
  show ?thesis
    using shape matchesToolPattern_terminal_shape_other_tool
      [of "''read_file''" "''run_terminal_command(ls*)''" "''ls*''", OF _ _ _ shape lt]
    by simp
qed

text \<open>
  Claim C10, as stated, fails for the same reason: with no \<^verbatim>\<open>command\<close> argument at all,
  the tool named \<^verbatim>\<open>run_terminal_command(*)\<close> matches the pattern
  \<^verbatim>\<open>run_terminal_command(*)\<close>.
\<close>

theorem matchesToolPattern_needs_command_counterexample:
  "map_of ([] :: jsrecord) ''command'' = None
   \<and> matchesToolPattern ''run_terminal_command(*)'' (''run_terminal_command('' @ ''*'' @ '')'')
        (Some [])"
  by (simp add: matchesToolPattern_def)

text \<open>
  Claim C10, amended: for every argument pattern \<open>p\<close> and every argument map in which
  \<^verbatim>\<open>command\<close> is absent, \<open>null\<close> or the empty string, \<open>matchesToolPattern\<close> returns false
  on the pattern \<^verbatim>\<open>run_terminal_command(\<close>\<open>p\<close>\<^verbatim>\<open>)\<close> when the tool is the terminal tool
  (either spelling, any \<open>p\<close>, also \<^verbatim>\<open>*\<close>), and for every other tool name that differs from
  the pattern string when \<open>p\<close> has no line terminator.
\<close>

theorem matchesToolPattern_needs_command:
  assumes pat: "pattern = ''run_terminal_command('' @ p @ '')''"
    and cmd: "map_of args ''command'' = None \<or> map_of args ''command'' = Some JNull
              \<or> map_of args ''command'' = Some (JStr [])"
    and name: "toolName = ''run_terminal_command'' \<or> toolName = ''runTerminalCommand''
               \<or> (toolName \<noteq> pattern \<and> \<not> list_ex isLineTerminator p)"
  shows "\<not> matchesToolPattern toolName pattern (Some args)"
proof -
  from cmd have falsy: "\<not> js_truthy (js_get args ''command'')"
    by (auto simp: js_get_def)
  from pat have shape: "terminalShape pattern p"
    by (simp add: terminalShape_def)
  then have ne_star: "pattern \<noteq> ''*''"
    by (rule terminalShape_not_star)
  from pat name have ne_name: "pattern \<noteq> toolName"
    by auto
  show ?thesis
  proof (cases "commandMatch pattern")
    case (Some cp)
    with falsy ne_star ne_name show ?thesis
      by (simp add: matchesToolPattern_def)
  next
    case None
    have "\<not> ((CHR ''*'' \<in> set pattern \<or> CHR ''?'' \<in> set pattern) \<and> globRegexTest pattern toolName)"
    proof (cases "toolName = ''run_terminal_command'' \<or> toolName = ''runTerminalCommand''")
      case True
      then show ?thesis
        unfolding pat using globRegexTest_terminal_names [of "p @ '')''"] by auto
    next
      case False
      with name have "\<not> list_ex isLineTerminator p"
        by simp
      with None shape have "p = []"
        using commandMatch_Some_iff [of pattern p] by auto
      with shape show ?thesis
        using terminalShape_empty_no_wildcard [of pattern] by (simp add: js_includes_def)
    qed
    with None ne_star ne_name show ?thesis
      by (simp add: matchesToolPattern_generic)
  qed
qed

theorem matchesToolPattern_needs_command_witness:
  "\<not> matchesToolPattern ''run_terminal_command'' (''run_terminal_command('' @ ''*'' @ '')'')
       (Some [(''cwd'', JStr ''/tmp'')])
   \<and> \<not> matchesToolPattern ''read_file'' (''run_terminal_command('' @ ''*'' @ '')'')
       (Some [(''command'', JStr [])])"
  using matchesToolPattern_needs_command
      [of "''run_terminal_command('' @ ''*'' @ '')''" "''*''" "[(''cwd'', JStr ''/tmp'')]"
          "''run_terminal_command''"]
    matchesToolPattern_needs_command
      [of "''run_terminal_command('' @ ''*'' @ '')''" "''*''" "[(''command'', JStr [])]"
          "''read_file''"]
  by (simp add: isLineTerminator_def)

text \<open>
  Claim C8: for a pattern that is not \<^verbatim>\<open>*\<close>, not the tool name and not of the terminal
  shape, and that contains a wildcard, \<open>matchesToolPattern\<close> should return true exactly when
  the name matches the glob. The name \<^verbatim>\<open>read_\<close>, line feed, \<^verbatim>\<open>file\<close> matches the glob
  \<^verbatim>\<open>read_*\<close>, and the checker returns false: the compiled \<^verbatim>\<open>.*\<close> stops at a line terminator.
  (Lemma \<open>matchesToolPattern_glob\<close> above is the claim for names without line terminators.)
\<close>

theorem matchesToolPattern_line_terminator_divergence:
  "''read_*'' \<noteq> ''*''
   \<and> ''read_*'' \<noteq> ''read_'' @ [CHR 0x0A] @ ''file''
   \<and> commandMatch ''read_*'' = None
   \<and> js_includes ''read_*'' (CHR ''*'')
   \<and> globMatches ''read_*'' (''read_'' @ [CHR 0x0A] @ ''file'')
   \<and> \<not> matchesToolPattern (''read_'' @ [CHR 0x0A] @ ''file'') ''read_*'' None"
  by (simp add: matchesToolPattern_def commandMatch_def js_includes_def globRegexTest_atoms
      globAtom_def isLineTerminator_def)

section \<open>Argument matching\<close>

lemma js_strict_eq_JStr: "js_strict_eq v (JStr s) \<longleftrightarrow> v = JStr s"
  by (cases v) auto

lemma js_nullish_or_String:
  "js_String (js_nullish_or v (JStr [])) = (if v = JUndefined \<or> v = JNull then [] else js_String v)"
  by (cases v) auto

text \<open>
  The loop of \<open>matchesArguments\<close> is the reference definition taken with the checker's own
  compiled glob.
\<close>

lemma matchesEntries_ref:
  "matchesEntries args ps =
     list_all (\<lambda>(key, pattern). argumentMatchesRef globRegexTest (js_get args key) pattern) ps"
proof (induction ps)
  case Nil
  then show ?case by simp
next
  case (Cons kp ps)
  obtain key pattern where kp: "kp = (key, pattern)"
    by (cases kp)
  show ?case
  proof (cases pattern)
    case (JStr sp)
    with Cons kp show ?thesis
      by (simp add: argumentMatchesRef_def js_typeof_string_def js_includes_def
          js_nullish_or_String Let_def)
  qed (use Cons kp in \<open>simp_all add: argumentMatchesRef_def js_typeof_string_def Let_def\<close>)
qed

lemma matchesArguments_ref:
  "matchesArguments args patterns = matchesArgumentsRef globRegexTest args patterns"
  by (simp add: matchesArguments_def matchesArgumentsRef_def matchesEntries_ref split: option.splits)

lemma matchesArguments_glob:
  assumes "list_all (\<lambda>(key, pattern). \<not> list_ex isLineTerminator (js_String (js_get args key))) ps"
  shows "matchesArguments args (Some ps) = matchesArgumentsRef globMatches args (Some ps)"
proof -
  have "argumentMatchesRef globRegexTest raw pattern = argumentMatchesRef globMatches raw pattern"
    if "\<not> list_ex isLineTerminator (js_String raw)" for raw pattern
    using that by (simp add: argumentMatchesRef_def globRegexTest_glob split: jsval.splits)
  with assms have
    "list_all (\<lambda>(key, pattern). argumentMatchesRef globRegexTest (js_get args key) pattern) ps
     = list_all (\<lambda>(key, pattern). argumentMatchesRef globMatches (js_get args key) pattern) ps"
    by (induction ps) auto
  then show ?thesis
    by (simp add: matchesArguments_ref matchesArgumentsRef_def)
qed

text \<open>
  Claim C7: \<open>matchesArguments\<close> should agree with the reference definition. With the glob
  of the specification it does not: the command \<^verbatim>\<open>sudo rm -rf /\<close>, line feed, \<^verbatim>\<open>ls\<close>
  matches the pattern \<^verbatim>\<open>sudo*\<close> by the reference definition and not by the checker.
\<close>

theorem matchesArguments_line_terminator_divergence:
  "matchesArgumentsRef globMatches
     [(''command'', JStr (''sudo rm -rf /'' @ [CHR 0x0A] @ ''ls''))]
     (Some [(''command'', JStr ''sudo*'')])
   \<and> \<not> matchesArguments
         [(''command'', JStr (''sudo rm -rf /'' @ [CHR 0x0A] @ ''ls''))]
         (Some [(''command'', JStr ''sudo*'')])"
  by (simp add: matchesArguments_ref matchesArgumentsRef_def argumentMatchesRef_def js_get_def
      globRegexTest_atoms globAtom_def isLineTerminator_def)

section \<open>Evaluation of a call\<close>

lemma scanPolicies_find:
  "scanPolicies toolName toolArguments ps =
     (case find (ruleMatches toolName toolArguments) ps of
        None \<Rightarrow> (Allow, None)
      | Some policy \<Rightarrow> (ToolPermissionPolicy.permission policy, Some policy))"
  by (induction ps) (simp_all add: ruleMatches_def)

lemma scanPolicies_base:
  "fst (scanPolicies toolName toolArguments ps) = staticBase toolName toolArguments ps"
  "snd (scanPolicies toolName toolArguments ps) = find (ruleMatches toolName toolArguments) ps"
  by (simp_all add: scanPolicies_find staticBase_def split: option.splits)

text \<open>
  Claim C3: when no dynamic-evaluation capability is supplied (no tool, or a tool without
  one), \<open>checkToolPermission\<close> returns the permission of the first rule of the list that
  matches, with that rule as \<open>matchedPolicy\<close>; when no rule matches it returns \<open>Allow\<close> with
  no matched rule. With the empty policy list the result is \<open>Allow\<close> with no matched rule,
  for every tool name.
\<close>

theorem checkToolPermission_static:
  assumes "(case tool_opt of None \<Rightarrow> None | Some t \<Rightarrow> evaluateToolCallPolicy t) = None"
  shows "checkToolPermission toolName toolArguments perms processedArgs tool_opt =
           (case find (ruleMatches toolName toolArguments) (policies perms) of
              None \<Rightarrow> \<lparr>PermissionCheckResult.permission = Allow, matchedPolicy = None\<rparr>
            | Some policy \<Rightarrow>
                \<lparr>PermissionCheckResult.permission = ToolPermissionPolicy.permission policy,
                 matchedPolicy = Some policy\<rparr>)
         \<and> checkToolPermission toolName toolArguments \<lparr>policies = []\<rparr> processedArgs tool_opt =
             \<lparr>PermissionCheckResult.permission = Allow, matchedPolicy = None\<rparr>"
  using assms
  by (simp add: checkToolPermission_def scanPolicies_find split: option.splits)

theorem checkToolPermission_static_witness:
  "checkToolPermission ''run'' []
      \<lparr>policies = [\<lparr>tool = ''run'', ToolPermissionPolicy.permission = Ask, argumentMatches = None\<rparr>,
                   \<lparr>tool = ''*'', ToolPermissionPolicy.permission = Allow, argumentMatches = None\<rparr>]\<rparr>
      None None
     = \<lparr>PermissionCheckResult.permission = Ask,
        matchedPolicy = Some \<lparr>tool = ''run'', ToolPermissionPolicy.permission = Ask,
                               argumentMatches = None\<rparr>\<rparr>
   \<and> checkToolPermission ''run'' [] \<lparr>policies = []\<rparr> None None
       = \<lparr>PermissionCheckResult.permission = Allow, matchedPolicy = None\<rparr>"
  using checkToolPermission_static [of None "''run''" "[]"
      "\<lparr>policies = [\<lparr>tool = ''run'', ToolPermissionPolicy.permission = Ask, argumentMatches = None\<rparr>,
                   \<lparr>tool = ''*'', ToolPermissionPolicy.permission = Allow, argumentMatches = None\<rparr>]\<rparr>"
      None]
  by (simp add: ruleMatches_def matchesToolPattern_def matchesArguments_def)

text \<open>
  Claim C2: for a tool with a dynamic-evaluation capability, the permission returned by
  \<open>checkToolPermission\<close> is the more restrictive of the static base permission and the
  dynamic result (translated back), in the order \<open>Exclude\<close> above \<open>Ask\<close> above \<open>Allow\<close>. So
  it is never less restrictive than the static base, nor than the dynamic result, and the
  matched rule is still the first matching rule.
\<close>

theorem checkToolPermission_dynamic:
  assumes "evaluateToolCallPolicy t = Some evaluate"
  shows "(let base = staticBase toolName toolArguments (policies perms);
              dynamic = toolPolicyToPermissionPolicy
                          (evaluate (permissionPolicyToToolPolicy base) toolArguments processedArgs);
              result = checkToolPermission toolName toolArguments perms processedArgs (Some t)
          in PermissionCheckResult.permission result = moreRestrictive base dynamic
             \<and> restrictiveness base \<le> restrictiveness (PermissionCheckResult.permission result)
             \<and> restrictiveness dynamic \<le> restrictiveness (PermissionCheckResult.permission result)
             \<and> matchedPolicy result = find (ruleMatches toolName toolArguments) (policies perms))"
proof -
  define base where "base = staticBase toolName toolArguments (policies perms)"
  define dynamic where "dynamic = toolPolicyToPermissionPolicy
      (evaluate (permissionPolicyToToolPolicy base) toolArguments processedArgs)"
  define result where
    "result = checkToolPermission toolName toolArguments perms processedArgs (Some t)"
  have scan: "scanPolicies toolName toolArguments (policies perms) =
                (base, find (ruleMatches toolName toolArguments) (policies perms))"
    using scanPolicies_base [of toolName toolArguments "policies perms"]
    by (simp add: base_def prod_eq_iff)
  have perm: "PermissionCheckResult.permission result =
        (if base = Exclude \<or> dynamic = Exclude then Exclude
         else if base = Ask \<or> dynamic = Ask then Ask else Allow)"
    and matched: "matchedPolicy result = find (ruleMatches toolName toolArguments) (policies perms)"
    using assms by (simp_all add: result_def checkToolPermission_def scan dynamic_def Let_def)
  have "PermissionCheckResult.permission result = moreRestrictive base dynamic"
    unfolding perm by (cases base; cases dynamic) (simp_all add: moreRestrictive_def)
  moreover have "restrictiveness base \<le> restrictiveness (PermissionCheckResult.permission result)"
    unfolding perm by (cases base; cases dynamic) simp_all
  moreover have "restrictiveness dynamic \<le> restrictiveness (PermissionCheckResult.permission result)"
    unfolding perm by (cases base; cases dynamic) simp_all
  ultimately show ?thesis
    using matched unfolding Let_def base_def [symmetric] dynamic_def [symmetric]
      result_def [symmetric] by simp
qed

theorem checkToolPermission_dynamic_witness:
  "PermissionCheckResult.permission
     (checkToolPermission ''run_terminal_command'' [(''command'', JStr ''sudo rm -rf /'')]
        \<lparr>policies = [\<lparr>tool = ''run_terminal_command'', ToolPermissionPolicy.permission = Allow,
                       argumentMatches = None\<rparr>]\<rparr>
        None
        (Some \<lparr>function_name = ''run_terminal_command'',
                evaluateToolCallPolicy = Some (\<lambda>basePolicy parsedArgs processedArgs. Disabled)\<rparr>))
     = Exclude
   \<and> PermissionCheckResult.permission
     (checkToolPermission ''run_terminal_command'' [(''command'', JStr ''ls'')]
        \<lparr>policies = [\<lparr>tool = ''run_terminal_command'', ToolPermissionPolicy.permission = Ask,
                       argumentMatches = None\<rparr>]\<rparr>
        None
        (Some \<lparr>function_name = ''run_terminal_command'',
                evaluateToolCallPolicy =
                  Some (\<lambda>basePolicy parsedArgs processedArgs. AllowedWithoutPermission)\<rparr>))
     = Ask"
  using checkToolPermission_dynamic
      [of "\<lparr>function_name = ''run_terminal_command'',
                evaluateToolCallPolicy = Some (\<lambda>basePolicy parsedArgs processedArgs. Disabled)\<rparr>"
          "\<lambda>basePolicy parsedArgs processedArgs. Disabled"
          "''run_terminal_command''" "[(''command'', JStr ''sudo rm -rf /'')]"
          "\<lparr>policies = [\<lparr>tool = ''run_terminal_command'', ToolPermissionPolicy.permission = Allow,
                       argumentMatches = None\<rparr>]\<rparr>" None]
    checkToolPermission_dynamic
      [of "\<lparr>function_name = ''run_terminal_command'',
                evaluateToolCallPolicy =
                  Some (\<lambda>basePolicy parsedArgs processedArgs. AllowedWithoutPermission)\<rparr>"
          "\<lambda>basePolicy parsedArgs processedArgs. AllowedWithoutPermission"
          "''run_terminal_command''" "[(''command'', JStr ''ls'')]"
          "\<lparr>policies = [\<lparr>tool = ''run_terminal_command'', ToolPermissionPolicy.permission = Ask,
                       argumentMatches = None\<rparr>]\<rparr>" None]
  by (simp add: Let_def staticBase_def ruleMatches_def matchesToolPattern_def matchesArguments_def
      moreRestrictive_def)

text \<open>
  Claim C6: \<open>filterExcludedTools\<close> returns the subsequence of the tool list made exactly of
  the tools whose evaluation with empty arguments, the tool itself as the dynamic
  evaluator, is not \<open>Exclude\<close>; its length is the length of the input minus the number of
  tools whose evaluation is \<open>Exclude\<close>.
\<close>

theorem filterExcludedTools_subsequence:
  "filterExcludedTools tools perms = filter (\<lambda>t. \<not> excludedWithoutArguments perms t) tools
   \<and> subseq (filterExcludedTools tools perms) tools
   \<and> set (filterExcludedTools tools perms) = {t \<in> set tools. \<not> excludedWithoutArguments perms t}
   \<and> length (filterExcludedTools tools perms)
       = length tools - length (filter (excludedWithoutArguments perms) tools)"
proof -
  have eq: "filterExcludedTools tools perms = filter (\<lambda>t. \<not> excludedWithoutArguments perms t) tools"
    by (simp add: filterExcludedTools_def excludedWithoutArguments_def)
  have "length tools = length (filter (excludedWithoutArguments perms) tools)
          + length (filter (\<lambda>t. \<not> excludedWithoutArguments perms t) tools)"
    by (rule sum_length_filter_compl [symmetric])
  then show ?thesis
    unfolding eq by auto
qed

theorem filterExcludedTools_subsequence_witness:
  "filterExcludedTools
     [\<lparr>function_name = ''read_file'', evaluateToolCallPolicy = None\<rparr>,
      \<lparr>function_name = ''grep_search'', evaluateToolCallPolicy = None\<rparr>,
      \<lparr>function_name = ''create_new_file'', evaluateToolCallPolicy = None\<rparr>]
     \<lparr>policies = [\<lparr>tool = ''grep_search'', ToolPermissionPolicy.permission = Exclude,
                    argumentMatches = None\<rparr>,
                  \<lparr>tool = ''*'', ToolPermissionPolicy.permission = Allow,
                    argumentMatches = None\<rparr>]\<rparr>
   = [\<lparr>function_name = ''read_file'', evaluateToolCallPolicy = None\<rparr>,
      \<lparr>function_name = ''create_new_file'', evaluateToolCallPolicy = None\<rparr>]"
  using filterExcludedTools_subsequence
    [of "[\<lparr>function_name = ''read_file'', evaluateToolCallPolicy = None\<rparr>,
          \<lparr>function_name = ''grep_search'', evaluateToolCallPolicy = None\<rparr>,
          \<lparr>function_name = ''create_new_file'', evaluateToolCallPolicy = None\<rparr>]"
        "\<lparr>policies = [\<lparr>tool = ''grep_search'', ToolPermissionPolicy.permission = Exclude,
                       argumentMatches = None\<rparr>,
                     \<lparr>tool = ''*'', ToolPermissionPolicy.permission = Allow,
                       argumentMatches = None\<rparr>]\<rparr>"]
  by (simp add: excludedWithoutArguments_def checkToolPermission_def matchesToolPattern_def
      matchesArguments_def commandMatch_def js_includes_def)

text \<open>
  Claim C9: when the service is disabled (\<open>isEnabled\<close> is false: the flag is off or no
  permissions are loaded), \<open>checkPermission\<close> returns \<open>Allow\<close> with no matched rule, whatever
  the tool, its dynamic evaluator and the arguments are.
\<close>

theorem checkPermission_disabled:
  assumes "\<not> isEnabled this"
  shows "checkPermission this t toolArguments processedArgs =
           \<lparr>PermissionCheckResult.permission = Allow, matchedPolicy = None\<rparr>"
  using assms by (auto simp: isEnabled_def checkPermission_def)

theorem checkPermission_disabled_witness:
  "\<not> isEnabled \<lparr>permissions = Some \<lparr>policies = [\<lparr>tool = ''*'',
                    ToolPermissionPolicy.permission = Exclude, argumentMatches = None\<rparr>]\<rparr>,
                 enabled = False\<rparr>
   \<and> checkPermission
        \<lparr>permissions = Some \<lparr>policies = [\<lparr>tool = ''*'',
                    ToolPermissionPolicy.permission = Exclude, argumentMatches = None\<rparr>]\<rparr>,
         enabled = False\<rparr>
        \<lparr>function_name = ''run_terminal_command'',
         evaluateToolCallPolicy = Some (\<lambda>basePolicy parsedArgs processedArgs. Disabled)\<rparr>
        [(''command'', JStr ''ls'')] None
      = \<lparr>PermissionCheckResult.permission = Allow, matchedPolicy = None\<rparr>"
proof -
  have off: "\<not> isEnabled \<lparr>permissions = Some \<lparr>policies = [\<lparr>tool = ''*'',
                    ToolPermissionPolicy.permission = Exclude, argumentMatches = None\<rparr>]\<rparr>,
                 enabled = False\<rparr>"
    by (simp add: isEnabled_def)
  from off checkPermission_disabled [OF off] show ?thesis
    by simp
qed

section \<open>Parsing rule patterns\<close>

lemma toolPatternMatch_plain:
  assumes "n \<noteq> []" and "CHR ''('' \<notin> set n"
  shows "toolPatternMatch n = Some (n, None)"
proof -
  from assms(2) have all: "\<And>x. x \<in> set n \<Longrightarrow> x \<noteq> CHR ''(''"
    by auto
  have tw: "takeWhile (\<lambda>c. c \<noteq> CHR ''('') n = n"
    using all by (simp add: takeWhile_eq_all_conv)
  have dw: "dropWhile (\<lambda>c. c \<noteq> CHR ''('') n = []"
    using all by simp
  show ?thesis
    unfolding toolPatternMatch_def Let_def tw dw using assms(1) by simp
qed

lemma toolPatternMatch_with_args:
  assumes "n \<noteq> []" and "CHR ''('' \<notin> set n" and "CHR '')'' \<notin> set a"
  shows "toolPatternMatch (n @ ''('' @ a @ '')'') = Some (n, Some a)"
proof -
  from assms(2) have alln: "\<And>x. x \<in> set n \<Longrightarrow> x \<noteq> CHR ''(''"
    by auto
  from assms(3) have alla: "\<And>x. x \<in> set a \<Longrightarrow> x \<noteq> CHR '')''"
    by auto
  have tw: "takeWhile (\<lambda>c. c \<noteq> CHR ''('') (n @ ''('' @ a @ '')'') = n"
    using takeWhile_append2 [of n "\<lambda>c. c \<noteq> CHR ''(''" "''('' @ a @ '')''"] alln by simp
  have dw: "dropWhile (\<lambda>c. c \<noteq> CHR ''('') (n @ ''('' @ a @ '')'') = ''('' @ a @ '')''"
    using dropWhile_append2 [of n "\<lambda>c. c \<noteq> CHR ''(''" "''('' @ a @ '')''"] alln by simp
  have tl: "tl (''('' @ a @ '')'') = a @ '')''"
    by simp
  have tw2: "takeWhile (\<lambda>c. c \<noteq> CHR '')'') (a @ '')'') = a"
    using takeWhile_append2 [of a "\<lambda>c. c \<noteq> CHR '')''" "'')''"] alla by simp
  have dw2: "dropWhile (\<lambda>c. c \<noteq> CHR '')'') (a @ '')'') = '')''"
    using dropWhile_append2 [of a "\<lambda>c. c \<noteq> CHR '')''" "'')''"] alla by simp
  show ?thesis
    unfolding toolPatternMatch_def Let_def tw dw tl tw2 dw2 using assms(1) by simp
qed

lemma toolPatternMatch_SomeD:
  assumes "toolPatternMatch p = Some (n, a)"
  shows "n \<noteq> [] \<and> CHR ''('' \<notin> set n
         \<and> (case a of None \<Rightarrow> p = n
              | Some args \<Rightarrow> p = n @ ''('' @ args @ '')'' \<and> CHR '')'' \<notin> set args)"
proof -
  define name where "name = takeWhile (\<lambda>c. c \<noteq> CHR ''('') p"
  define rest where "rest = dropWhile (\<lambda>c. c \<noteq> CHR ''('') p"
  define args where "args = takeWhile (\<lambda>c. c \<noteq> CHR '')'') (tl rest)"
  define closing where "closing = dropWhile (\<lambda>c. c \<noteq> CHR '')'') (tl rest)"
  have p: "p = name @ rest"
    by (simp add: name_def rest_def)
  have noparen: "CHR ''('' \<notin> set name"
    unfolding name_def by (auto dest: set_takeWhileD)
  have tl: "tl rest = args @ closing"
    by (simp add: args_def closing_def)
  have noclose: "CHR '')'' \<notin> set args"
    unfolding args_def by (auto dest: set_takeWhileD)
  have unfolded: "toolPatternMatch p =
      (if name = [] then None
       else if rest = [] then Some (name, None)
       else if closing = '')'' then Some (name, Some args) else None)"
    unfolding toolPatternMatch_def Let_def name_def rest_def args_def closing_def
    by (rule refl)
  show ?thesis
  proof (cases "rest = []")
    case True
    with assms unfolded have "n = name" "name \<noteq> []" "a = None"
      by (auto split: if_splits)
    with True p noparen show ?thesis by simp
  next
    case False
    with assms unfolded have na: "n = name" "name \<noteq> []" "a = Some args" "closing = '')''"
      by (auto split: if_splits)
    from False have "hd rest = CHR ''(''"
      unfolding rest_def using hd_dropWhile [of "\<lambda>c. c \<noteq> CHR ''(''" p] by simp
    with False have "rest = CHR ''('' # tl rest"
      by (cases rest) auto
    with tl na have "rest = ''('' @ args @ '')''"
      by simp
    with p na noparen noclose show ?thesis by simp
  qed
qed

lemma parseToolPattern_isl: "isl (parseToolPattern p perm) \<longleftrightarrow> toolPatternMatch p = None"
  by (auto simp: parseToolPattern_def Let_def split: option.splits prod.splits)

text \<open>
  Claim C5, as stated, fails: a closing parenthesis with no opening one before it is kept
  as part of the tool name, and a further opening parenthesis inside the argument text is
  kept as part of the argument; \<open>parseToolPattern\<close> returns a policy for both.
\<close>

theorem parseToolPattern_unbalanced_counterexample:
  "\<not> balancedParens ''foo)''
   \<and> parseToolPattern ''foo)'' Exclude
       = Inr \<lparr>tool = ''foo)'', ToolPermissionPolicy.permission = Exclude, argumentMatches = None\<rparr>
   \<and> \<not> balancedParens ''foo(a(b)''
   \<and> parseToolPattern ''foo(a(b)'' Exclude
       = Inr \<lparr>tool = ''foo'', ToolPermissionPolicy.permission = Exclude,
               argumentMatches = Some [(''pattern'', JStr ''a(b'')]\<rparr>"
  by (simp add: balancedParens_def parseToolPattern_def toolPatternMatch_def js_trim_def
      isWhiteSpace_def toolArgMappings_def)

text \<open>
  Claim C5, amended: \<open>parseToolPattern\<close> raises an error exactly for the pattern strings
  that are neither a non-empty name without opening parenthesis, nor such a name followed
  by an opening parenthesis, an argument text without closing parenthesis, and one closing
  parenthesis at the very end. In particular it raises for every pattern that has an
  opening parenthesis and does not end with a closing one.
\<close>

theorem parseToolPattern_error_iff:
  "(isl (parseToolPattern p perm) \<longleftrightarrow>
      \<not> ((p \<noteq> [] \<and> CHR ''('' \<notin> set p)
         \<or> (\<exists>name args. p = name @ ''('' @ args @ '')'' \<and> name \<noteq> []
               \<and> CHR ''('' \<notin> set name \<and> CHR '')'' \<notin> set args)))
   \<and> (CHR ''('' \<in> set p \<and> last p \<noteq> CHR '')'' \<longrightarrow> isl (parseToolPattern p perm))"
proof -
  let ?form = "(p \<noteq> [] \<and> CHR ''('' \<notin> set p)
         \<or> (\<exists>name args. p = name @ ''('' @ args @ '')'' \<and> name \<noteq> []
               \<and> CHR ''('' \<notin> set name \<and> CHR '')'' \<notin> set args)"
  have iff: "toolPatternMatch p = None \<longleftrightarrow> \<not> ?form"
  proof
    assume none: "toolPatternMatch p = None"
    show "\<not> ?form"
    proof
      assume ?form
      then show False
      proof
        assume "p \<noteq> [] \<and> CHR ''('' \<notin> set p"
        then have "toolPatternMatch p = Some (p, None)"
          by (simp add: toolPatternMatch_plain)
        with none show False by simp
      next
        assume "\<exists>name args. p = name @ ''('' @ args @ '')'' \<and> name \<noteq> []
               \<and> CHR ''('' \<notin> set name \<and> CHR '')'' \<notin> set args"
        then obtain name args where "p = name @ ''('' @ args @ '')''" "name \<noteq> []"
          "CHR ''('' \<notin> set name" "CHR '')'' \<notin> set args"
          by blast
        then have "toolPatternMatch p = Some (name, Some args)"
          using toolPatternMatch_with_args [of name args] by simp
        with none show False by simp
      qed
    qed
  next
    assume nf: "\<not> ?form"
    show "toolPatternMatch p = None"
    proof (rule ccontr)
      assume "toolPatternMatch p \<noteq> None"
      then obtain n a where "toolPatternMatch p = Some (n, a)"
        by auto
      from toolPatternMatch_SomeD [OF this] have
        d: "n \<noteq> []" "CHR ''('' \<notin> set n"
           "case a of None \<Rightarrow> p = n
            | Some args \<Rightarrow> p = n @ ''('' @ args @ '')'' \<and> CHR '')'' \<notin> set args"
        by simp_all
      show False
      proof (cases a)
        case None
        with d nf show False by simp
      next
        case (Some args)
        with d have "p = n @ ''('' @ args @ '')'' \<and> n \<noteq> []
               \<and> CHR ''('' \<notin> set n \<and> CHR '')'' \<notin> set args"
          by simp
        with nf show False by blast
      qed
    qed
  qed
  have "last p = CHR '')''" if "?form" and "CHR ''('' \<in> set p"
  proof -
    from that obtain name args where "p = name @ ''('' @ args @ '')''"
      by blast
    then show ?thesis by simp
  qed
  with iff have "CHR ''('' \<in> set p \<and> last p \<noteq> CHR '')'' \<longrightarrow> toolPatternMatch p = None"
    by blast
  with iff show ?thesis
    unfolding parseToolPattern_isl by blast
qed

theorem parseToolPattern_error_iff_witness:
  "CHR ''('' \<in> set ''invalid((pattern'' \<and> last ''invalid((pattern'' \<noteq> CHR '')''
   \<and> isl (parseToolPattern ''invalid((pattern'' Allow)
   \<and> \<not> (\<exists>name args. ''invalid((pattern'' = name @ ''('' @ args @ '')'' \<and> name \<noteq> []
               \<and> CHR ''('' \<notin> set name \<and> CHR '')'' \<notin> set args)"
  using parseToolPattern_error_iff [of "''invalid((pattern''" Allow]
  by simp

lemma pushPatterns_map:
  assumes "list_all (\<lambda>pattern. \<not> isl (parseToolPattern pattern perm)) ps"
  shows "pushPatterns perm ps acc = Inr (acc @ map (\<lambda>pattern. projr (parseToolPattern pattern perm)) ps)"
  using assms by (induction ps arbitrary: acc) (auto split: sum.splits)

text \<open>
  When every pattern parses, the rules come out in the order exclude, ask, allow, each
  category in the order of its list; a pattern of the exclude list that does not parse
  makes the whole normalization fail.
\<close>

lemma yamlConfigToPolicies_order:
  assumes "list_all (\<lambda>pattern. \<not> isl (parseToolPattern pattern Exclude)) ex"
    and "list_all (\<lambda>pattern. \<not> isl (parseToolPattern pattern Ask)) as"
    and "list_all (\<lambda>pattern. \<not> isl (parseToolPattern pattern Allow)) al"
  shows "yamlConfigToPolicies \<lparr>allow = Some al, ask = Some as, exclude = Some ex\<rparr> =
           Inr (map (\<lambda>pattern. projr (parseToolPattern pattern Exclude)) ex
                @ map (\<lambda>pattern. projr (parseToolPattern pattern Ask)) as
                @ map (\<lambda>pattern. projr (parseToolPattern pattern Allow)) al)"
  using assms by (simp add: yamlConfigToPolicies_def pushCategory_def pushPatterns_map)

lemma yamlConfigToPolicies_error:
  assumes "pattern \<in> set ex" and "isl (parseToolPattern pattern Exclude)"
  shows "isl (yamlConfigToPolicies \<lparr>allow = al, ask = as, exclude = Some ex\<rparr>)"
proof -
  have "isl (pushPatterns Exclude ps acc)"
    if "pattern \<in> set ps" for ps acc
    using that assms(2) by (induction ps arbitrary: acc) (auto split: sum.splits)
  with assms(1) have "isl (pushPatterns Exclude ex [])"
    by blast
  then obtain e where "pushPatterns Exclude ex [] = Inl e"
    by (cases "pushPatterns Exclude ex []") auto
  then show ?thesis
    by (simp add: yamlConfigToPolicies_def pushCategory_def)
qed

text \<open>
  Claim C4: the configuration with \<^verbatim>\<open>exclude: ["run_terminal_command(sudo*)"]\<close>,
  \<^verbatim>\<open>ask: ["run_terminal_command"]\<close> and \<^verbatim>\<open>allow: ["*"]\<close> is normalized into three rules, in
  the order exclude rule, ask rule, allow rule, the argument literal \<^verbatim>\<open>sudo*\<close> under the
  key \<^verbatim>\<open>command\<close>. Against that list the call of \<^verbatim>\<open>run_terminal_command\<close> with the command
  \<^verbatim>\<open>sudo rm -rf /\<close> is excluded, the call with the command \<^verbatim>\<open>ls\<close> asks, and
  \<^verbatim>\<open>read_file\<close> without arguments is allowed.
\<close>

theorem yamlConfigToPolicies_end_to_end:
  "yamlConfigToPolicies
     \<lparr>allow = Some [''*''], ask = Some [''run_terminal_command''],
      exclude = Some [''run_terminal_command(sudo*)'']\<rparr>
     = Inr [\<lparr>tool = ''run_terminal_command'', ToolPermissionPolicy.permission = Exclude,
              argumentMatches = Some [(''command'', JStr ''sudo*'')]\<rparr>,
            \<lparr>tool = ''run_terminal_command'', ToolPermissionPolicy.permission = Ask,
              argumentMatches = None\<rparr>,
            \<lparr>tool = ''*'', ToolPermissionPolicy.permission = Allow, argumentMatches = None\<rparr>]
   \<and> PermissionCheckResult.permission
       (checkToolPermission ''run_terminal_command'' [(''command'', JStr ''sudo rm -rf /'')]
          \<lparr>policies = [\<lparr>tool = ''run_terminal_command'', ToolPermissionPolicy.permission = Exclude,
              argumentMatches = Some [(''command'', JStr ''sudo*'')]\<rparr>,
            \<lparr>tool = ''run_terminal_command'', ToolPermissionPolicy.permission = Ask,
              argumentMatches = None\<rparr>,
            \<lparr>tool = ''*'', ToolPermissionPolicy.permission = Allow, argumentMatches = None\<rparr>]\<rparr>
          None None) = Exclude
   \<and> PermissionCheckResult.permission
       (checkToolPermission ''run_terminal_command'' [(''command'', JStr ''ls'')]
          \<lparr>policies = [\<lparr>tool = ''run_terminal_command'', ToolPermissionPolicy.permission = Exclude,
              argumentMatches = Some [(''command'', JStr ''sudo*'')]\<rparr>,
            \<lparr>tool = ''run_terminal_command'', ToolPermissionPolicy.permission = Ask,
              argumentMatches = None\<rparr>,
            \<lparr>tool = ''*'', ToolPermissionPolicy.permission = Allow, argumentMatches = None\<rparr>]\<rparr>
          None None) = Ask
   \<and> PermissionCheckResult.permission
       (checkToolPermission ''read_file'' []
          \<lparr>policies = [\<lparr>tool = ''run_terminal_command'', ToolPermissionPolicy.permission = Exclude,
              argumentMatches = Some [(''command'', JStr ''sudo*'')]\<rparr>,
            \<lparr>tool = ''run_terminal_command'', ToolPermissionPolicy.permission = Ask,
              argumentMatches = None\<rparr>,
            \<lparr>tool = ''*'', ToolPermissionPolicy.permission = Allow, argumentMatches = None\<rparr>]\<rparr>
          None None) = Allow"
  by code_simp

end
